theory Spec2Isabelle
  imports Main
begin

section \<open>The docstring registry and its expansion engine\<close>

text \<open>
  A shallow embedding of \<^verbatim>\<open>assistance/_ai/controller/generate_docstrings.py\<close>.

  The module talks to four collaborators whose code is not part of it:
  \<^verbatim>\<open>hash_for_docstring\<close>, \<^verbatim>\<open>get_closest_functions\<close>, \<^verbatim>\<open>get_completion_only\<close> and
  \<^verbatim>\<open>json.loads\<close>. They are parameters of the model (the record \<open>oracles\<close>). The two
  network services are deterministic machines over a state of type \<open>'e\<close>: every finite
  run of the real services is the run of such a machine (take the list of answers still
  to be given as the state), so a theorem for all machines covers every run. The
  services are taken to answer; a failing network call is not modelled.

  The registry is the part of the file system below \<^verbatim>\<open>AI_REGISTRY_DIR\<close>. Its three
  sub-directories \<^verbatim>\<open>docstrings\<close>, \<^verbatim>\<open>dependencies\<close> and \<^verbatim>\<open>dependents\<close> are taken to exist.
  A file name is a hash; hashes are taken to be plain file names (no path separator).

  The \<^verbatim>\<open>scope\<close> argument only labels log lines and is left out, as is \<^verbatim>\<open>log_info\<close>.
\<close>

subsection \<open>Results of a call\<close>

datatype pyerr = FileNotFoundError | TypeError | KeyError | IndexError | AssertionError

text \<open>
  A call returns, raises, or is cut off by the fuel that bounds the two unbounded
  constructs of the module: the \<^verbatim>\<open>while True\<close> of \<^verbatim>\<open>_run_with_error_loop\<close> and
  the recursion of \<^verbatim>\<open>_generate_docstrings\<close>.
\<close>

datatype 'a outcome = Return 'a | Raise pyerr | OutOfFuel

subsection \<open>JSON values as Python sees them\<close>

datatype json =
    JNull
  | JBool bool
  | JInt int
  | JFloat string
  | JStr string
  | JArr "json list"
  | JObj "(string \<times> json) list"

text \<open>\<^verbatim>\<open>xs[i]\<close> on a list: a negative index counts from the end, out of range raises.\<close>

definition py_index :: "'a list \<Rightarrow> int \<Rightarrow> pyerr + 'a" where
  "py_index xs i =
     (let n = int (length xs); j = (if i < 0 then i + n else i)
      in if 0 \<le> j \<and> j < n then Inr (xs ! nat j) else Inl IndexError)"

text \<open>
  \<^verbatim>\<open>xs[v]\<close> where \<open>v\<close> came out of \<^verbatim>\<open>json.loads\<close>: an int indexes, a bool is an int
  (\<^verbatim>\<open>True\<close> is 1), anything else is a \<^verbatim>\<open>TypeError\<close>.
\<close>

definition py_getitem_list :: "'a list \<Rightarrow> json \<Rightarrow> pyerr + 'a" where
  "py_getitem_list xs v =
     (case v of
        JInt i \<Rightarrow> py_index xs i
      | JBool b \<Rightarrow> py_index xs (if b then 1 else 0)
      | _ \<Rightarrow> Inl TypeError)"

text \<open>
  \<^verbatim>\<open>data[key]\<close> with a string key: a dict looks the key up (the last pair of a
  repeated key wins in \<^verbatim>\<open>json.loads\<close>), every other JSON value raises \<^verbatim>\<open>TypeError\<close>.
\<close>

definition py_getitem_key :: "json \<Rightarrow> string \<Rightarrow> pyerr + json" where
  "py_getitem_key data key =
     (case data of
        JObj kvs \<Rightarrow> (case map_of (rev kvs) key of None \<Rightarrow> Inl KeyError | Some v \<Rightarrow> Inr v)
      | _ \<Rightarrow> Inl TypeError)"

text \<open>\<^verbatim>\<open>for x in data\<close>: a list gives its items, a dict its keys, a string its characters.\<close>

definition py_iter :: "json \<Rightarrow> pyerr + json list" where
  "py_iter data =
     (case data of
        JArr xs \<Rightarrow> Inr xs
      | JObj kvs \<Rightarrow> Inr (map JStr (rev (remdups (rev (map fst kvs)))))
      | JStr s \<Rightarrow> Inr (map (\<lambda>c. JStr [c]) s)
      | _ \<Rightarrow> Inl TypeError)"

subsection \<open>The world: registry, visited set, services\<close>

type_synonym hash = string

text \<open>
  A directory is the list of its entries in the order \<^verbatim>\<open>glob("*")\<close> yields them.
  \<open>already_traversing\<close> is the Python set shared by reference through one pass.
  \<open>prompts\<close> and \<open>queries\<close> record, in order, what was sent to the completion gateway
  and to the nearest-neighbour service.
\<close>

record 'e world =
  docstrings :: "hash \<rightharpoonup> string"
  dependencies :: "hash \<rightharpoonup> string list"
  dependents :: "hash \<rightharpoonup> string list"
  already_traversing :: "hash set"
  services :: 'e
  prompts :: "string list"
  queries :: "string list"

record 'e oracles =
  hash_for_docstring :: "string \<Rightarrow> hash"
  get_closest_functions :: "'e \<Rightarrow> string \<Rightarrow> string list \<times> 'e"
  get_completion_only :: "'e \<Rightarrow> string \<Rightarrow> string \<times> 'e"
  json_loads :: "string \<Rightarrow> string + json"
  INITIAL_PROMPT_format :: "string \<Rightarrow> string"
  PROMPT_format :: "string \<Rightarrow> string \<Rightarrow> string"
  SIMILAR_PROMPT_format :: "string \<Rightarrow> string \<Rightarrow> string"

text \<open>
  \<open>json_loads\<close> gives \<open>Inl r\<close> when \<^verbatim>\<open>json.loads\<close> raises \<^verbatim>\<open>JSONDecodeError\<close>, with
  \<open>r\<close> the \<^verbatim>\<open>repr\<close> of the exception. The three \<open>_format\<close> fields are
  \<^verbatim>\<open>INITIAL_PROMPT.format(task=_)\<close>, \<^verbatim>\<open>PROMPT.format(task=_, docstring=_)\<close> and
  \<^verbatim>\<open>SIMILAR_PROMPT.format(base_docstring=_, similar_docstrings=_)\<close>: the wording of a
  prompt is read by the external model only.
\<close>

type_synonym ('a, 'e) action = "'e world \<Rightarrow> 'a outcome \<times> 'e world"

definition ret :: "'a \<Rightarrow> ('a, 'e) action" where
  "ret x w = (Return x, w)"

definition raise :: "pyerr \<Rightarrow> ('a, 'e) action" where
  "raise e w = (Raise e, w)"

definition lift :: "pyerr + 'a \<Rightarrow> ('a, 'e) action" where
  "lift r w = (case r of Inl e \<Rightarrow> (Raise e, w) | Inr x \<Rightarrow> (Return x, w))"

text \<open>Sequencing: an exception (or the end of the fuel) skips the rest.\<close>

definition and_then :: "('a, 'e) action \<Rightarrow> ('a \<Rightarrow> ('b, 'e) action) \<Rightarrow> ('b, 'e) action" where
  "and_then m k w =
     (case m w of
        (Return x, w') \<Rightarrow> k x w'
      | (Raise e, w') \<Rightarrow> (Raise e, w')
      | (OutOfFuel, w') \<Rightarrow> (OutOfFuel, w'))"

subsection \<open>File-system operations on the registry\<close>

definition add_entry :: "string \<Rightarrow> string list \<Rightarrow> string list" where
  "add_entry name entries = (if name \<in> set entries then entries else entries @ [name])"

text \<open>
  \<^verbatim>\<open>PurePath.stem\<close>: the name up to its last dot, when that dot is neither the first
  nor the last character.
\<close>

definition stem :: "string \<Rightarrow> string" where
  "stem name =
     (let after = length (takeWhile (\<lambda>c. c \<noteq> CHR ''.'') (rev name))
      in if after < length name \<and> 0 < after \<and> Suc after < length name
         then take (length name - Suc after) name
         else name)"

text \<open>\<^verbatim>\<open>_get_dependencies_registry_dir\<close>, \<^verbatim>\<open>_get_dependents_registry_dir\<close>: \<^verbatim>\<open>mkdir(exist_ok=True)\<close>.\<close>

definition get_dependencies_registry_dir :: "hash \<Rightarrow> (unit, 'e) action" where
  "get_dependencies_registry_dir h w =
     (case dependencies w h of
        None \<Rightarrow> (Return (), w\<lparr>dependencies := (dependencies w)(h \<mapsto> [])\<rparr>)
      | Some _ \<Rightarrow> (Return (), w))"

definition get_dependents_registry_dir :: "hash \<Rightarrow> (unit, 'e) action" where
  "get_dependents_registry_dir h w =
     (case dependents w h of
        None \<Rightarrow> (Return (), w\<lparr>dependents := (dependents w)(h \<mapsto> [])\<rparr>)
      | Some _ \<Rightarrow> (Return (), w))"

text \<open>\<^verbatim>\<open>docstring_registry_path.unlink()\<close>: a missing file raises.\<close>

definition unlink_docstring :: "hash \<Rightarrow> (unit, 'e) action" where
  "unlink_docstring h w =
     (case docstrings w h of
        None \<Rightarrow> (Raise FileNotFoundError, w)
      | Some _ \<Rightarrow> (Return (), w\<lparr>docstrings := (docstrings w)(h := None)\<rparr>))"

text \<open>\<^verbatim>\<open>shutil.rmtree(dependencies_registry_dir)\<close>: a missing directory raises.\<close>

definition rmtree_dependencies :: "hash \<Rightarrow> (unit, 'e) action" where
  "rmtree_dependencies h w =
     (case dependencies w h of
        None \<Rightarrow> (Raise FileNotFoundError, w)
      | Some _ \<Rightarrow> (Return (), w\<lparr>dependencies := (dependencies w)(h := None)\<rparr>))"

text \<open>\<^verbatim>\<open>(dependent_dependency_dir / docstring_hash).unlink()\<close>.\<close>

definition unlink_dependency :: "hash \<Rightarrow> string \<Rightarrow> (unit, 'e) action" where
  "unlink_dependency dir name w =
     (case dependencies w dir of
        None \<Rightarrow> (Raise FileNotFoundError, w)
      | Some entries \<Rightarrow>
          if name \<in> set entries
          then (Return (), w\<lparr>dependencies := (dependencies w)(dir \<mapsto> removeAll name entries)\<rparr>)
          else (Raise FileNotFoundError, w))"

text \<open>
  \<^verbatim>\<open>old_dependency_path.rename(new_dependency_path)\<close>, both in the same directory: a
  missing source raises, an existing target is replaced (POSIX).
\<close>

definition rename_dependency :: "hash \<Rightarrow> string \<Rightarrow> string \<Rightarrow> (unit, 'e) action" where
  "rename_dependency dir old new w =
     (case dependencies w dir of
        None \<Rightarrow> (Raise FileNotFoundError, w)
      | Some entries \<Rightarrow>
          if old \<in> set entries
          then (Return (),
                w\<lparr>dependencies := (dependencies w)(dir \<mapsto> add_entry new (removeAll old entries))\<rparr>)
          else (Raise FileNotFoundError, w))"

text \<open>\<^verbatim>\<open>(dir / name).touch()\<close>: creates the empty marker file; the directory must exist.\<close>

definition touch_dependency :: "hash \<Rightarrow> string \<Rightarrow> (unit, 'e) action" where
  "touch_dependency dir name w =
     (case dependencies w dir of
        None \<Rightarrow> (Raise FileNotFoundError, w)
      | Some entries \<Rightarrow>
          (Return (), w\<lparr>dependencies := (dependencies w)(dir \<mapsto> add_entry name entries)\<rparr>))"

definition touch_dependent :: "hash \<Rightarrow> string \<Rightarrow> (unit, 'e) action" where
  "touch_dependent dir name w =
     (case dependents w dir of
        None \<Rightarrow> (Raise FileNotFoundError, w)
      | Some entries \<Rightarrow>
          (Return (), w\<lparr>dependents := (dependents w)(dir \<mapsto> add_entry name entries)\<rparr>))"

text \<open>\<^verbatim>\<open>dependents_registry_dir.glob("*")\<close>: the entries; nothing for a missing directory.\<close>

definition glob_dependents :: "hash \<Rightarrow> (string list, 'e) action" where
  "glob_dependents h w =
     (Return (case dependents w h of None \<Rightarrow> [] | Some entries \<Rightarrow> entries), w)"

text \<open>\<^verbatim>\<open>similar_function_docstring_path.exists()\<close>.\<close>

definition docstring_exists :: "hash \<Rightarrow> (bool, 'e) action" where
  "docstring_exists h w = (Return (docstrings w h \<noteq> None), w)"

text \<open>\<^verbatim>\<open>open(docstring_registry_path, "w")\<close> and \<^verbatim>\<open>f.write(file_contents)\<close>.\<close>

definition write_docstring :: "hash \<Rightarrow> string \<Rightarrow> (unit, 'e) action" where
  "write_docstring h file_contents w =
     (Return (), w\<lparr>docstrings := (docstrings w)(h \<mapsto> file_contents)\<rparr>)"

subsection \<open>The two services\<close>

definition complete :: "'e oracles \<Rightarrow> string \<Rightarrow> (string, 'e) action" where
  "complete orc prompt w =
     (let (response, e) = get_completion_only orc (services w) prompt
      in (Return response, w\<lparr>services := e, prompts := prompts w @ [prompt]\<rparr>))"

definition closest :: "'e oracles \<Rightarrow> string \<Rightarrow> (string list, 'e) action" where
  "closest orc docstring w =
     (let (found, e) = get_closest_functions orc (services w) docstring
      in (Return found, w\<lparr>services := e, queries := queries w @ [docstring]\<rparr>))"

subsection \<open>The structured-completion repair loop\<close>

text \<open>
  \<^verbatim>\<open>ERROR_MESSAGE_TEMPLATE.format(error=_, response=_)\<close>: the template after
  \<^verbatim>\<open>textwrap.dedent\<close> and \<^verbatim>\<open>strip\<close>, with its two fields filled in.
\<close>

definition ERROR_MESSAGE_TEMPLATE_format :: "string \<Rightarrow> string \<Rightarrow> string" where
  "ERROR_MESSAGE_TEMPLATE_format error response =
     ''# Error Message\<newline>\<newline>'' @
     ''You previously attempted the prompt below, however, when\<newline>'' @
     ''attempting to run '' @ [CHR 0x60] @ ''json.loads(response)'' @ [CHR 0x60] @
     '' on the response you\<newline>'' @
     ''previously provided the following error was raised:\<newline>\<newline>'' @
     error @
     ''\<newline>\<newline>The response you previously provided was:\<newline>\<newline>'' @
     response"

text \<open>
  The \<^verbatim>\<open>while True\<close> of \<^verbatim>\<open>_run_with_error_loop\<close>, one iteration per unit of fuel;
  \<open>error_message\<close> is the loop's variable of that name.
\<close>

primrec error_loop ::
  "nat \<Rightarrow> 'e oracles \<Rightarrow> string \<Rightarrow> string \<Rightarrow> string \<Rightarrow> (json, 'e) action" where
  "error_loop 0 orc prompt prepend error_message = (\<lambda>w. (OutOfFuel, w))"
| "error_loop (Suc n) orc prompt prepend error_message =
     and_then (complete orc (error_message @ prompt)) (\<lambda>response0.
       let response = prepend @ response0 in
       case json_loads orc response of
         Inr data \<Rightarrow> ret data
       | Inl e \<Rightarrow>
           error_loop n orc prompt prepend
             (ERROR_MESSAGE_TEMPLATE_format e response @ ''\<newline>\<newline>''))"

definition run_with_error_loop ::
  "nat \<Rightarrow> 'e oracles \<Rightarrow> string \<Rightarrow> string \<Rightarrow> (json, 'e) action" where
  "run_with_error_loop fuel orc prompt prepend = error_loop fuel orc prompt prepend []"

subsection \<open>The similarity judgement\<close>

fun string_of_nat :: "nat \<Rightarrow> string" where
  "string_of_nat n =
     (if n < 10 then [char_of (48 + n)]
      else string_of_nat (n div 10) @ [char_of (48 + n mod 10)])"

primrec join :: "string \<Rightarrow> string list \<Rightarrow> string" where
  "join sep [] = []"
| "join sep (x # xs) = (if xs = [] then x else x @ sep @ join sep xs)"

text \<open>Lines 303 to 307: the numbered candidates, separated by a rule.\<close>

definition similar_docstrings_text :: "string list \<Rightarrow> string" where
  "similar_docstrings_text similar =
     join ''\<newline>\<newline>---\<newline>\<newline>''
       (map (\<lambda>(i, item). ''['' @ string_of_nat i @ '']\<newline>'' @ item)
            (zip [0 ..< length similar] similar))"

text \<open>
  Lines 308 to 322, entered when the list of candidates is not empty: the judge is
  asked, and its verdict read. \<open>None\<close>: the \<^verbatim>\<open>"same function"\<close> field is not the
  object \<^verbatim>\<open>True\<close>. \<open>Some s\<close>: it is, and \<open>s\<close> is the candidate the \<^verbatim>\<open>"most similar"\<close>
  field indexes.
\<close>

definition judge_similar ::
  "nat \<Rightarrow> 'e oracles \<Rightarrow> string \<Rightarrow> string list \<Rightarrow> (string option, 'e) action" where
  "judge_similar fuel orc docstring similar =
     and_then
       (run_with_error_loop fuel orc
          (SIMILAR_PROMPT_format orc docstring (similar_docstrings_text similar)) [])
       (\<lambda>is_it_the_same_data.
          and_then (lift (py_getitem_key is_it_the_same_data ''same function'')) (\<lambda>same.
            if same = JBool True
            then and_then (lift (py_getitem_key is_it_the_same_data ''most similar''))
                   (\<lambda>index_of_most_similar.
                      and_then (lift (py_getitem_list similar index_of_most_similar))
                        (\<lambda>similar_docstring. ret (Some similar_docstring)))
            else ret None))"

subsection \<open>Pruning and merging\<close>

datatype flow = ReturnNone | FallThrough

text \<open>
  Lines 327 to 337, the branch \<^verbatim>\<open>similar_docstring_hash == parent\<close>. The
  \<^verbatim>\<open>return None\<close> stands inside the \<^verbatim>\<open>for\<close>: it is reached with the first dependent,
  and with no dependent the branch falls through to line 339.
\<close>

definition prune_self_reference :: "hash \<Rightarrow> (flow, 'e) action" where
  "prune_self_reference docstring_hash =
     and_then (unlink_docstring docstring_hash) (\<lambda>_.
     and_then (rmtree_dependencies docstring_hash) (\<lambda>_.
     and_then (rmtree_dependencies docstring_hash) (\<lambda>_.
     and_then (glob_dependents docstring_hash) (\<lambda>paths.
       case paths of
         [] \<Rightarrow> ret FallThrough
       | path # _ \<Rightarrow>
           (let dependent = stem path in
            and_then (get_dependencies_registry_dir dependent) (\<lambda>_.
            and_then (unlink_dependency dependent docstring_hash) (\<lambda>_.
            ret ReturnNone)))))))"

text \<open>Lines 347 to 355: every dependent's marker for the candidate is renamed.\<close>

primrec rewire_dependents :: "hash \<Rightarrow> hash \<Rightarrow> string list \<Rightarrow> (unit, 'e) action" where
  "rewire_dependents docstring_hash similar_docstring_hash [] = ret ()"
| "rewire_dependents docstring_hash similar_docstring_hash (path # paths) =
     (let dependent = stem path in
      and_then (get_dependencies_registry_dir dependent) (\<lambda>_.
      and_then (rename_dependency dependent docstring_hash similar_docstring_hash) (\<lambda>_.
      rewire_dependents docstring_hash similar_docstring_hash paths)))"

text \<open>Lines 345 to 355, the branch \<^verbatim>\<open>similar_function_docstring_path.exists()\<close>.\<close>

definition merge_into_existing :: "hash \<Rightarrow> hash \<Rightarrow> (unit, 'e) action" where
  "merge_into_existing docstring_hash similar_docstring_hash =
     and_then (unlink_docstring docstring_hash) (\<lambda>_.
     and_then (rmtree_dependencies docstring_hash) (\<lambda>_.
     and_then (glob_dependents docstring_hash) (\<lambda>paths.
     rewire_dependents docstring_hash similar_docstring_hash paths)))"

subsection \<open>The expansion of one node\<close>

text \<open>
  \<^verbatim>\<open>asyncio.gather(*coroutines)\<close>: the children are run one after the other, in the
  order of the list, each to its end before the next starts, and the results come back
  in that order. This is the schedule in which no awaited call suspends; other
  interleavings of the children are not modelled. The first exception ends the call.
\<close>

primrec gather :: "('x \<Rightarrow> ('r, 'e) action) \<Rightarrow> 'x list \<Rightarrow> ('r list, 'e) action" where
  "gather f [] = ret []"
| "gather f (x # xs) =
     and_then (f x) (\<lambda>r. and_then (gather f xs) (\<lambda>rs. ret (r # rs)))"

text \<open>
  Lines 398 and 399. \<^verbatim>\<open>dependencies_registry_dir / child_hash\<close> is a \<^verbatim>\<open>TypeError\<close>
  when \<^verbatim>\<open>child_hash\<close> is \<^verbatim>\<open>None\<close>.
\<close>

primrec link_children :: "hash \<Rightarrow> hash option list \<Rightarrow> (unit, 'e) action" where
  "link_children docstring_hash [] = ret ()"
| "link_children docstring_hash (child_hash # rest) =
     (case child_hash of
        None \<Rightarrow> raise TypeError
      | Some c \<Rightarrow>
          and_then (touch_dependency docstring_hash c) (\<lambda>_. link_children docstring_hash rest))"

datatype resolution = Done "hash option" | Proceed

text \<open>
  Lines 302 to 365, from the list of candidates on. \<open>recurse\<close> is
  \<^verbatim>\<open>_generate_docstrings\<close> itself, with its arguments \<^verbatim>\<open>docstring\<close>, \<^verbatim>\<open>max_depth\<close>,
  \<^verbatim>\<open>parent\<close> and \<^verbatim>\<open>current_depth\<close>. \<open>Done r\<close>: the function returns \<open>r\<close> here.
  \<open>Proceed\<close>: control reaches line 367.
\<close>

definition resolve_among ::
  "(string \<Rightarrow> int \<Rightarrow> hash option \<Rightarrow> int \<Rightarrow> (hash option, 'e) action) \<Rightarrow> nat \<Rightarrow> 'e oracles \<Rightarrow>
   string \<Rightarrow> hash \<Rightarrow> int \<Rightarrow> hash option \<Rightarrow> int \<Rightarrow> string list \<Rightarrow> (resolution, 'e) action" where
  "resolve_among recurse fuel orc docstring docstring_hash max_depth parent current_depth
     similar =
     (if similar \<noteq> [] then
        and_then (judge_similar fuel orc docstring similar) (\<lambda>verdict.
          case verdict of
            None \<Rightarrow> ret Proceed
          | Some similar_docstring \<Rightarrow>
              (let similar_docstring_hash = hash_for_docstring orc similar_docstring in
               and_then
                 (if Some similar_docstring_hash = parent
                  then prune_self_reference docstring_hash
                  else ret FallThrough)
                 (\<lambda>flow.
                    case flow of
                      ReturnNone \<Rightarrow> ret (Done None)
                    | FallThrough \<Rightarrow>
                        and_then (docstring_exists similar_docstring_hash) (\<lambda>exists.
                          if exists
                          then and_then
                                 (merge_into_existing docstring_hash similar_docstring_hash)
                                 (\<lambda>_. and_then
                                         (recurse similar_docstring max_depth parent
                                            current_depth)
                                         (\<lambda>r. ret (Done r)))
                          else ret Proceed))))
      else ret Proceed)"

text \<open>
  Lines 289 to 365: the two directories are made, the nearest neighbours are asked for,
  the candidate's own text is taken out of the answer once, and the rest is resolved.
\<close>

definition resolve_duplicate ::
  "(string \<Rightarrow> int \<Rightarrow> hash option \<Rightarrow> int \<Rightarrow> (hash option, 'e) action) \<Rightarrow> nat \<Rightarrow> 'e oracles \<Rightarrow>
   string \<Rightarrow> hash \<Rightarrow> int \<Rightarrow> hash option \<Rightarrow> int \<Rightarrow> (resolution, 'e) action" where
  "resolve_duplicate recurse fuel orc docstring docstring_hash max_depth parent current_depth =
     and_then (get_dependents_registry_dir docstring_hash) (\<lambda>_.
     and_then (get_dependencies_registry_dir docstring_hash) (\<lambda>_.
     and_then (closest orc docstring) (\<lambda>closest_functions.
     let similar_docstrings_to_check_against = remove1 docstring closest_functions in
     resolve_among recurse fuel orc docstring docstring_hash max_depth parent current_depth
       similar_docstrings_to_check_against)))"

text \<open>
  Lines 367 to 401. A child that is not a string cannot be hashed by
  \<^verbatim>\<open>hash_for_docstring\<close>, whose code is not in the module: it is taken to raise
  \<^verbatim>\<open>TypeError\<close>.
\<close>

definition persist_and_expand ::
  "(string \<Rightarrow> int \<Rightarrow> hash option \<Rightarrow> int \<Rightarrow> (hash option, 'e) action) \<Rightarrow> nat \<Rightarrow> 'e oracles \<Rightarrow>
   string \<Rightarrow> string \<Rightarrow> hash \<Rightarrow> int \<Rightarrow> hash option \<Rightarrow> int \<Rightarrow> (hash option, 'e) action" where
  "persist_and_expand recurse fuel orc task docstring docstring_hash max_depth parent
     current_depth =
     and_then (write_docstring docstring_hash (docstring @ ''\<newline>'')) (\<lambda>_.
     and_then (case parent of None \<Rightarrow> ret () | Some p \<Rightarrow> touch_dependent docstring_hash p) (\<lambda>_.
     and_then (run_with_error_loop fuel orc (PROMPT_format orc task docstring) [])
       (\<lambda>child_docstrings.
     and_then (lift (py_iter child_docstrings)) (\<lambda>children.
     and_then
       (gather
          (\<lambda>child_docstring.
             case child_docstring of
               JStr s \<Rightarrow> recurse s max_depth (Some docstring_hash) (current_depth + 1)
             | _ \<Rightarrow> raise TypeError)
          children)
       (\<lambda>child_docstring_hashes.
     and_then (link_children docstring_hash child_docstring_hashes) (\<lambda>_.
     ret (Some docstring_hash)))))))"

text \<open>The body of \<^verbatim>\<open>_generate_docstrings\<close>, lines 279 to 401.\<close>

definition generate_docstrings_body ::
  "(string \<Rightarrow> int \<Rightarrow> hash option \<Rightarrow> int \<Rightarrow> (hash option, 'e) action) \<Rightarrow> nat \<Rightarrow> 'e oracles \<Rightarrow>
   string \<Rightarrow> string \<Rightarrow> int \<Rightarrow> hash option \<Rightarrow> int \<Rightarrow> (hash option, 'e) action" where
  "generate_docstrings_body recurse fuel orc task docstring max_depth parent current_depth w =
     (let docstring_hash = hash_for_docstring orc docstring in
      if docstring_hash \<in> already_traversing w then (Return (Some docstring_hash), w)
      else
        let w1 = w\<lparr>already_traversing := insert docstring_hash (already_traversing w)\<rparr> in
        if current_depth \<ge> max_depth then (Return (Some docstring_hash), w1)
        else
          and_then
            (resolve_duplicate recurse fuel orc docstring docstring_hash max_depth parent
               current_depth)
            (\<lambda>resolution.
               case resolution of
                 Done r \<Rightarrow> ret r
               | Proceed \<Rightarrow>
                   persist_and_expand recurse fuel orc task docstring docstring_hash max_depth
                     parent current_depth) w1)"

text \<open>
  \<^verbatim>\<open>_generate_docstrings\<close>: each nested call takes one unit of fuel, and the repair
  loops of a call get what is left.
\<close>

primrec generate_docstrings ::
  "nat \<Rightarrow> 'e oracles \<Rightarrow> string \<Rightarrow> string \<Rightarrow> int \<Rightarrow> hash option \<Rightarrow> int \<Rightarrow> (hash option, 'e) action"
  where
  "generate_docstrings 0 orc task docstring max_depth parent current_depth =
     (\<lambda>w. (OutOfFuel, w))"
| "generate_docstrings (Suc n) orc task docstring max_depth parent current_depth =
     generate_docstrings_body (generate_docstrings n orc task) n orc task docstring max_depth
       parent current_depth"

subsection \<open>The iterative-deepening driver\<close>

text \<open>
  The \<^verbatim>\<open>for i in range(max_depth)\<close> of \<^verbatim>\<open>generate_docstrings_tree\<close>: every pass starts
  from a fresh \<^verbatim>\<open>set()\<close>, and \<open>root_docstring_hash\<close> is the loop's variable.
\<close>

primrec passes ::
  "nat \<Rightarrow> 'e oracles \<Rightarrow> string \<Rightarrow> string \<Rightarrow> int list \<Rightarrow> hash option \<Rightarrow> (hash option, 'e) action"
  where
  "passes fuel orc task root_docstring [] root_docstring_hash = ret root_docstring_hash"
| "passes fuel orc task root_docstring (i # rest) root_docstring_hash =
     and_then
       (\<lambda>w. generate_docstrings fuel orc task root_docstring i None 0
               (w\<lparr>already_traversing := {}\<rparr>))
       (\<lambda>h. passes fuel orc task root_docstring rest h)"

text \<open>
  \<^verbatim>\<open>generate_docstrings_tree\<close>. The variable \<^verbatim>\<open>tree\<close> is \<^verbatim>\<open>None\<close> from line 199 on
  (the lines that would assign it are comments), and it is what line 218 returns; the
  result type \<open>hash option\<close> has \<open>None\<close> for it. The \<^verbatim>\<open>assert\<close> of line 215 is taken
  to be checked (Python run without \<^verbatim>\<open>-O\<close>).
\<close>

definition generate_docstrings_tree ::
  "nat \<Rightarrow> 'e oracles \<Rightarrow> string \<Rightarrow> int \<Rightarrow> (hash option, 'e) action" where
  "generate_docstrings_tree fuel orc task max_depth =
     and_then (complete orc (INITIAL_PROMPT_format orc task)) (\<lambda>root_docstring.
     and_then (passes fuel orc task root_docstring [0 .. max_depth - 1] None)
       (\<lambda>root_docstring_hash.
          if root_docstring_hash = None then raise AssertionError
          else (let tree = None in ret tree)))"

subsection \<open>Where control stands at line 302\<close>



subsection \<open>Stub collaborators for concrete runs\<close>

text \<open>
  The gateway stub answers its calls from a script, whatever the prompt; the
  nearest-neighbour stub is a table; the hash stub is injective and gives plain file
  names. The prompt stubs keep the arguments apart.
\<close>

definition scripted ::
  "(string \<Rightarrow> string list) \<Rightarrow> (string \<Rightarrow> string + json) \<Rightarrow> string list oracles" where
  "scripted nn parse =
     \<lparr>hash_for_docstring = (\<lambda>d. ''#'' @ d),
      get_closest_functions = (\<lambda>e d. (nn d, e)),
      get_completion_only = (\<lambda>e p. case e of [] \<Rightarrow> ([], []) | r # rs \<Rightarrow> (r, rs)),
      json_loads = parse,
      INITIAL_PROMPT_format = (\<lambda>t. ''INITIAL '' @ t),
      PROMPT_format = (\<lambda>t d. ''CHILDREN '' @ d),
      SIMILAR_PROMPT_format = (\<lambda>b s. ''SIMILAR '' @ b @ ''\<newline>'' @ s)\<rparr>"

text \<open>What \<^verbatim>\<open>json.loads\<close> gives on the answers the scripts use.\<close>

definition stub_json :: "string \<Rightarrow> string + json" where
  \<open>stub_json s =
     (if s = ''[]'' then Inr (JArr [])
      else if s = ''["B"]'' then Inr (JArr [JStr ''B''])
      else if s = ''{"most similar": 0, "same function": true}''
        then Inr (JObj [(''most similar'', JInt 0), (''same function'', JBool True)])
      else if s = ''{"most similar": 7, "same function": true}''
        then Inr (JObj [(''most similar'', JInt 7), (''same function'', JBool True)])
      else if s = ''{"most similar": 0, "same function": "unknown"}''
        then Inr (JObj [(''most similar'', JInt 0), (''same function'', JStr ''unknown'')])
      else Inl ''JSONDecodeError(Expecting value)'')\<close>

definition no_neighbours :: "string \<Rightarrow> string list" where
  "no_neighbours d = []"

text \<open>The nearest-neighbour table of the merge scenarios: \<open>B\<close> is close to \<open>X\<close>.\<close>

definition neighbours_B_X :: "string \<Rightarrow> string list" where
  "neighbours_B_X d = (if d = ''B'' then [''B'', ''X''] else [])"

text \<open>The table of the pruning scenario: \<open>B\<close> is close to its parent \<open>A\<close>.\<close>

definition neighbours_B_A :: "string \<Rightarrow> string list" where
  "neighbours_B_A d = (if d = ''B'' then [''A''] else [])"

definition empty_world :: "'e \<Rightarrow> 'e world" where
  "empty_world e =
     \<lparr>docstrings = Map.empty, dependencies = Map.empty, dependents = Map.empty,
      already_traversing = {}, services = e, prompts = [], queries = []\<rparr>"

text \<open>
  A registry left by earlier passes: \<open>A\<close> was expanded into \<open>B\<close>, both are stored and
  linked in both directions.
\<close>

definition world_A_B :: "'e \<Rightarrow> 'e world" where
  "world_A_B e =
     \<lparr>docstrings = [''#A'' \<mapsto> ''A\<newline>'', ''#B'' \<mapsto> ''B\<newline>''],
      dependencies = [''#A'' \<mapsto> [''#B''], ''#B'' \<mapsto> []],
      dependents = [''#A'' \<mapsto> [], ''#B'' \<mapsto> [''#A'']],
      already_traversing = {''#A''}, services = e, prompts = [], queries = []\<rparr>"

text \<open>The same registry with a third stored node \<open>X\<close>.\<close>

definition world_A_B_X :: "'e \<Rightarrow> 'e world" where
  "world_A_B_X e =
     \<lparr>docstrings = [''#A'' \<mapsto> ''A\<newline>'', ''#B'' \<mapsto> ''B\<newline>'', ''#X'' \<mapsto> ''X\<newline>''],
      dependencies = [''#A'' \<mapsto> [''#B''], ''#B'' \<mapsto> [], ''#X'' \<mapsto> []],
      dependents = [''#A'' \<mapsto> [], ''#B'' \<mapsto> [''#A''], ''#X'' \<mapsto> []],
      already_traversing = {''#A''}, services = e, prompts = [], queries = []\<rparr>"

text \<open>A registry that holds the one node \<open>X\<close>.\<close>

definition world_X :: "'e \<Rightarrow> 'e world" where
  "world_X e =
     \<lparr>docstrings = [''#X'' \<mapsto> ''X\<newline>''], dependencies = [''#X'' \<mapsto> []],
      dependents = [''#X'' \<mapsto> []], already_traversing = {}, services = e, prompts = [],
      queries = []\<rparr>"

subsection \<open>Two conditions on actions\<close>


text \<open>\<open>returns_only P m\<close>: whatever \<open>m\<close> returns satisfies \<open>P\<close>.\<close>

definition returns_only :: "('a \<Rightarrow> bool) \<Rightarrow> ('a, 'e) action \<Rightarrow> bool" where
  "returns_only P m \<longleftrightarrow> (\<forall>w x w'. m w = (Return x, w') \<longrightarrow> P x)"

section \<open>Properties\<close>

subsection \<open>Sequencing\<close>

lemma and_then_ret [simp]: "and_then (ret x) k = k x"
  by (rule ext) (simp add: and_then_def ret_def)

lemma and_then_raise [simp]: "and_then (raise e) k = raise e"
  by (rule ext) (simp add: and_then_def raise_def)

subsection \<open>The depth bound\<close>

text \<open>
  Claim C7. A call of \<^verbatim>\<open>_generate_docstrings\<close> whose \<open>current_depth\<close> has reached
  \<open>max_depth\<close> returns the hash of its docstring and leaves the world as it was but for
  the visited mark: no query to the nearest-neighbour service, no prompt to the gateway,
  no file written, no directory made, no edge recorded. With \<open>max_depth = 0\<close> this is
  every call the driver makes.
\<close>

theorem depth_bound_returns_id:
  "max_depth \<le> current_depth \<Longrightarrow>
   generate_docstrings (Suc n) orc task docstring max_depth parent current_depth w =
     (Return (Some (hash_for_docstring orc docstring)),
      w\<lparr>already_traversing :=
          insert (hash_for_docstring orc docstring) (already_traversing w)\<rparr>)"
  by (simp add: generate_docstrings_body_def Let_def insert_absorb)

text \<open>At depth bound 0, with a gateway that would list a child.\<close>

theorem depth_bound_returns_id_witness:
  \<open>(0::int) \<le> 0 \<and>
   generate_docstrings (Suc 0) (scripted no_neighbours stub_json) ''task'' ''A'' 0 None 0
     (empty_world [''["B"]'']) =
   (Return (Some ''#A''), (empty_world [''["B"]''])\<lparr>already_traversing := {''#A''}\<rparr>)\<close>
  using depth_bound_returns_id [of 0 0 0 "scripted no_neighbours stub_json" "''task''" "''A''" None
      \<open>empty_world [''["B"]'']\<close>]
  by (simp add: scripted_def empty_world_def)

subsection \<open>The driver with no pass to run\<close>

text \<open>
  Claim C9. With \<open>max_depth \<le> 0\<close> the driver asks the gateway once, for the root
  docstring, runs no pass, leaves the registry as it was, and fails the assertion of
  line 215.
\<close>

theorem nonpositive_depth_asserts:
  "max_depth \<le> 0 \<Longrightarrow>
   generate_docstrings_tree fuel orc task max_depth w =
     (Raise AssertionError,
      w\<lparr>services := snd (get_completion_only orc (services w) (INITIAL_PROMPT_format orc task)),
        prompts := prompts w @ [INITIAL_PROMPT_format orc task]\<rparr>)"
  by (simp add: generate_docstrings_tree_def and_then_def complete_def ret_def raise_def
      split: prod.splits)

theorem nonpositive_depth_asserts_witness:
  \<open>(0::int) \<le> 0 \<and>
   generate_docstrings_tree 5 (scripted no_neighbours stub_json) ''reverse a string'' 0
     (empty_world [''A'', ''[]'']) =
   (Raise AssertionError,
    (empty_world [''A'', ''[]''])\<lparr>services := [''[]''], prompts := [''INITIAL reverse a string'']\<rparr>)\<close>
  using nonpositive_depth_asserts [of 0 5 "scripted no_neighbours stub_json" "''reverse a string''"
      \<open>empty_world [''A'', ''[]'']\<close>]
  by (simp add: scripted_def empty_world_def)

subsection \<open>The repair loop\<close>



subsection \<open>Evaluating concrete runs\<close>

declare string_of_nat.simps [simp del]

lemma string_of_nat_digit [simp]: "string_of_nat 0 = ''0''" "string_of_nat 1 = ''1''"
  by code_simp+

lemmas run_defs =
  generate_docstrings_body_def resolve_duplicate_def resolve_among_def judge_similar_def
  persist_and_expand_def run_with_error_loop_def and_then_def ret_def raise_def lift_def
  complete_def closest_def get_dependents_registry_dir_def get_dependencies_registry_dir_def
  py_getitem_key_def py_getitem_list_def py_index_def py_iter_def similar_docstrings_text_def
  prune_self_reference_def merge_into_existing_def unlink_docstring_def rmtree_dependencies_def
  unlink_dependency_def rename_dependency_def touch_dependency_def touch_dependent_def
  write_docstring_def glob_dependents_def docstring_exists_def add_entry_def stem_def Let_def

lemmas stub_defs =
  scripted_def stub_json_def no_neighbours_def neighbours_B_A_def neighbours_B_X_def
  empty_world_def world_A_B_def world_A_B_X_def world_X_def

subsection \<open>The text of visited nodes is kept\<close>





























subsection \<open>What is stored for a novel docstring\<close>



subsection \<open>What the driver returns\<close>

text \<open>
  Claim C1, as amended. For every task and every \<open>max_depth \<ge> 1\<close>, whenever
  \<^verbatim>\<open>generate_docstrings_tree\<close> returns, it returns \<^verbatim>\<open>None\<close>, the value of the variable
  \<^verbatim>\<open>tree\<close> that no line assigns; the root hash of the last pass is only tested by the
  assertion.
\<close>

theorem driver_returns_none:
  "1 \<le> max_depth \<Longrightarrow>
   fst (generate_docstrings_tree fuel orc task max_depth w) = Return v \<Longrightarrow> v = None"
  by (auto simp: generate_docstrings_tree_def and_then_def ret_def raise_def
      split: prod.splits outcome.splits if_splits)

text \<open>
  The end-to-end scenario: the root text is \<open>A\<close>, the nearest-neighbour service finds
  nothing, the gateway lists no child. Two passes store the one node \<open>#A\<close>.
\<close>

lemma end_to_end_run:
  "generate_docstrings_tree 5 (scripted no_neighbours stub_json) ''reverse a string'' 2
     (empty_world [''A'', ''[]'']) =
   (Return None,
    \<lparr>docstrings = [''#A'' \<mapsto> ''A\<newline>''], dependencies = [''#A'' \<mapsto> []],
     dependents = [''#A'' \<mapsto> []], already_traversing = {''#A''}, services = [],
     prompts = [''INITIAL reverse a string'', ''CHILDREN A''], queries = [''A'']\<rparr>)"
  by (simp add: generate_docstrings_tree_def upto_rec1 eval_nat_numeral run_defs stub_defs)

theorem driver_returns_none_witness:
  "(1::int) \<le> 2 \<and>
   fst (generate_docstrings_tree 5 (scripted no_neighbours stub_json) ''reverse a string'' 2
          (empty_world [''A'', ''[]''])) = Return None"
  using driver_returns_none [of 2 5 "scripted no_neighbours stub_json" "''reverse a string''"
      "empty_world [''A'', ''[]'']" None]
  by (simp add: end_to_end_run)

text \<open>
  Claim C1 as stated fails in that scenario: the driver does not return the hash of the
  root text, which is the key of the one stored node.
\<close>

theorem driver_does_not_return_root_id:
  "fst (generate_docstrings_tree 5 (scripted no_neighbours stub_json) ''reverse a string'' 2
          (empty_world [''A'', ''[]''])) \<noteq>
     Return (Some (hash_for_docstring (scripted no_neighbours stub_json) ''A'')) \<and>
   docstrings
     (snd (generate_docstrings_tree 5 (scripted no_neighbours stub_json) ''reverse a string'' 2
          (empty_world [''A'', ''[]''])))
     (hash_for_docstring (scripted no_neighbours stub_json) ''A'') = Some ''A\<newline>''"
  by (simp add: end_to_end_run) (simp add: scripted_def)

subsection \<open>The pruning branch\<close>

lemma rmtree_dependencies_twice:
  "fst (and_then (rmtree_dependencies h) (\<lambda>_. and_then (rmtree_dependencies h) k) w) =
   Raise FileNotFoundError"
  by (simp add: and_then_def rmtree_dependencies_def split: option.splits)

lemma prune_raises:
  "fst (prune_self_reference docstring_hash w) = Raise FileNotFoundError"
proof (cases "docstrings w docstring_hash")
  case None
  then show ?thesis
    by (simp add: prune_self_reference_def and_then_def unlink_docstring_def)
next
  case (Some t)
  then have "unlink_docstring docstring_hash w =
      (Return (), w\<lparr>docstrings := (docstrings w)(docstring_hash := None)\<rparr>)"
    by (simp add: unlink_docstring_def)
  then show ?thesis
    unfolding prune_self_reference_def
    by (simp add: and_then_def [of "unlink_docstring docstring_hash"] rmtree_dependencies_twice)
qed

text \<open>
  Claim C6 (the code departs from it). The removal calls of the pruning branch, lines 327
  to 329, are not tolerant of absent state: \<^verbatim>\<open>unlink\<close> raises when the text is not
  stored, and the second \<^verbatim>\<open>shutil.rmtree\<close> of the same dependencies directory raises
  when the first has succeeded. So the branch raises \<^verbatim>\<open>FileNotFoundError\<close> from every
  world.
\<close>

theorem prune_self_reference_raises:
  "fst (prune_self_reference docstring_hash w) = Raise FileNotFoundError"
  by (rule prune_raises)

text \<open>
  Claim C2 (the code departs from it). \<open>B\<close>, stored and linked below its parent \<open>A\<close>, is
  judged the same function as \<open>A\<close>. The call raises at line 329: the text and the
  dependencies directory of \<open>B\<close> are gone, its dependents directory is still there, the
  edge from \<open>A\<close> to \<open>B\<close> is still there, and nothing is returned.
\<close>

theorem pruning_branch_raises:
  \<open>generate_docstrings 3 (scripted neighbours_B_A stub_json) ''task'' ''B'' 2 (Some ''#A'') 1
     (world_A_B [''{"most similar": 0, "same function": true}'', ''[]'']) =
   (Raise FileNotFoundError,
    \<lparr>docstrings = [''#A'' \<mapsto> ''A\<newline>''],
     dependencies = [''#A'' \<mapsto> [''#B'']],
     dependents = [''#A'' \<mapsto> [], ''#B'' \<mapsto> [''#A'']],
     already_traversing = {''#A'', ''#B''}, services = [''[]''],
     prompts = [''SIMILAR B\<newline>[0]\<newline>A''], queries = [''B'']\<rparr>)\<close>
  by (auto simp: numeral_3_eq_3 run_defs stub_defs fun_eq_iff)

subsection \<open>Linking the children\<close>


subsection \<open>No call returns None\<close>

text \<open>
  The only \<^verbatim>\<open>return None\<close> of \<^verbatim>\<open>_generate_docstrings\<close>, line 337, stands behind the
  second \<^verbatim>\<open>rmtree\<close>, so no call returns \<^verbatim>\<open>None\<close>.
\<close>

lemma returns_ret: "P x \<Longrightarrow> returns_only P (ret x)"
  by (simp add: returns_only_def ret_def)

lemma returns_raise: "returns_only P (raise e)"
  by (simp add: returns_only_def raise_def)

lemma returns_and_then:
  assumes "\<And>x. returns_only P (k x)"
  shows "returns_only P (and_then m k)"
  using assms unfolding returns_only_def and_then_def
  by (auto split: prod.splits outcome.splits)

lemma returns_and_then_after:
  assumes m: "returns_only Q m" and k: "\<And>x. Q x \<Longrightarrow> returns_only P (k x)"
  shows "returns_only P (and_then m k)"
  unfolding returns_only_def
proof (intro allI impI)
  fix w y w'
  assume run: "and_then m k w = (Return y, w')"
  obtain r1 w1 where m1: "m w = (r1, w1)" by (cases "m w")
  show "P y"
  proof (cases r1)
    case (Return x)
    with m m1 have "Q x" by (auto simp: returns_only_def)
    moreover from run m1 Return have "k x w1 = (Return y, w')" by (simp add: and_then_def)
    ultimately show ?thesis using k by (auto simp: returns_only_def)
  qed (use run m1 in \<open>auto simp: and_then_def\<close>)
qed

lemma prune_never_returns: "returns_only (\<lambda>_. False) (prune_self_reference h)"
  unfolding returns_only_def
proof (intro allI impI)
  fix w x w'
  assume "prune_self_reference h w = (Return x, w')"
  then have "fst (prune_self_reference h w) = Return x" by simp
  then show False by (simp add: prune_raises)
qed

lemma resolve_among_returns:
  assumes rec: "\<And>s md p cd. returns_only (\<lambda>r. r \<noteq> None) (recurse s md p cd)"
  shows "returns_only (\<lambda>res. res \<noteq> Done None)
           (resolve_among recurse n orc d h max_depth parent cd similar)"
proof -
  let ?P = "\<lambda>res. res \<noteq> Done None"
  have merged: "returns_only ?P
      (and_then (docstring_exists hs) (\<lambda>exists.
         if exists
         then and_then (merge_into_existing h hs)
                (\<lambda>_. and_then (recurse s max_depth parent cd) (\<lambda>r. ret (Done r)))
         else ret Proceed))" for hs s
  proof (rule returns_and_then)
    fix exists
    have "returns_only ?P (and_then (recurse s max_depth parent cd) (\<lambda>r. ret (Done r)))"
      by (rule returns_and_then_after [OF rec]) (simp add: returns_ret)
    then show "returns_only ?P
        (if exists
         then and_then (merge_into_existing h hs)
                (\<lambda>_. and_then (recurse s max_depth parent cd) (\<lambda>r. ret (Done r)))
         else ret Proceed)"
      by (simp add: returns_and_then returns_ret)
  qed
  have judged: "returns_only ?P
      (case verdict of
         None \<Rightarrow> ret Proceed
       | Some similar_docstring \<Rightarrow>
           and_then
             (if Some (hash_for_docstring orc similar_docstring) = parent
              then prune_self_reference h
              else ret FallThrough)
             (\<lambda>flow.
                case flow of
                  ReturnNone \<Rightarrow> ret (Done None)
                | FallThrough \<Rightarrow>
                    and_then (docstring_exists (hash_for_docstring orc similar_docstring))
                      (\<lambda>exists.
                         if exists
                         then and_then
                                (merge_into_existing h
                                   (hash_for_docstring orc similar_docstring))
                                (\<lambda>_. and_then
                                        (recurse similar_docstring max_depth parent cd)
                                        (\<lambda>r. ret (Done r)))
                         else ret Proceed)))" for verdict
  proof (cases verdict)
    case None
    then show ?thesis by (simp add: returns_ret)
  next
    case (Some s)
    show ?thesis
    proof (cases "Some (hash_for_docstring orc s) = parent")
      case True
      with Some show ?thesis
        by (simp add: returns_and_then_after [OF prune_never_returns])
    next
      case False
      with Some show ?thesis by (simp add: merged)
    qed
  qed
  show ?thesis
    unfolding resolve_among_def Let_def
    by (simp add: returns_ret returns_and_then judged)
qed

lemma persist_and_expand_returns:
  "returns_only (\<lambda>r. r \<noteq> None)
     (persist_and_expand recurse n orc task d h max_depth parent cd)"
  unfolding persist_and_expand_def
  by (intro returns_and_then returns_ret) simp

lemma body_returns:
  assumes rec: "\<And>s md p cd. returns_only (\<lambda>r. r \<noteq> None) (recurse s md p cd)"
  shows "returns_only (\<lambda>r. r \<noteq> None)
           (generate_docstrings_body recurse n orc task d max_depth parent cd)"
proof -
  let ?h = "hash_for_docstring orc d"
  have "returns_only (\<lambda>res. res \<noteq> Done None)
      (resolve_duplicate recurse n orc d ?h max_depth parent cd)"
    unfolding resolve_duplicate_def Let_def
    by (intro returns_and_then resolve_among_returns rec)
  then have "returns_only (\<lambda>r. r \<noteq> None)
      (and_then (resolve_duplicate recurse n orc d ?h max_depth parent cd)
            (\<lambda>resolution.
               case resolution of
                 Done r \<Rightarrow> ret r
               | Proceed \<Rightarrow> persist_and_expand recurse n orc task d ?h max_depth parent cd))"
  proof (rule returns_and_then_after)
    fix res :: resolution
    assume res: "res \<noteq> Done None"
    show "returns_only (\<lambda>r. r \<noteq> None)
        (case res of
           Done r \<Rightarrow> ret r
         | Proceed \<Rightarrow> persist_and_expand recurse n orc task d ?h max_depth parent cd)"
    proof (cases res)
      case (Done r)
      with res have "r \<noteq> None" by simp
      then have "returns_only (\<lambda>r. r \<noteq> None) (ret r :: (hash option, 'a) action)"
        by (rule returns_ret)
      with Done show ?thesis by simp
    next
      case Proceed
      with persist_and_expand_returns [of recurse n orc task d ?h max_depth parent cd]
      show ?thesis by simp
    qed
  qed
  then show ?thesis
    unfolding returns_only_def generate_docstrings_body_def Let_def
    by (auto split: if_splits)
qed

lemma generate_docstrings_returns_id:
  "returns_only (\<lambda>r. r \<noteq> None) (generate_docstrings n orc task d max_depth parent cd)"
proof (induction n arbitrary: d max_depth parent cd)
  case 0
  show ?case by (simp add: returns_only_def)
next
  case (Suc n)
  show ?case
    unfolding generate_docstrings.simps by (rule body_returns) (rule Suc)
qed

lemma generate_docstrings_never_none:
  "generate_docstrings n orc task d max_depth parent cd w \<noteq> (Return None, w')"
  using generate_docstrings_returns_id [of n orc task d max_depth parent cd]
  unfolding returns_only_def by blast

subsection \<open>Past the two guards\<close>








subsection \<open>The verdict of the judge\<close>




subsection \<open>The effect of a merge\<close>










end
